theory Spec2Isabelle
  imports Main "HOL-Library.Word" "HOL-Library.Signed_Division"
begin

section \<open>Data model\<close>

text \<open>
  Go's \<open>int64\<close> and \<open>time.Duration\<close> (a count of nanoseconds) are 64-bit words read
  as two's complement through \<open>sint\<close>; \<open>rune\<close> is Go's \<open>int32\<close>.  A Go \<open>error\<close> value is
  \<open>error option\<close>, \<open>None\<close> being \<open>nil\<close>.
\<close>

type_synonym int64 = "64 word"
type_synonym rune = "32 word"

datatype error = Error string

text \<open>A run-time panic of the Go program: the only one the modelled code can raise.\<close>

datatype panic = NilDereference

text \<open>The rune literals \<open>'G'\<close>, \<open>'Y'\<close> and \<open>'R'\<close>.\<close>

definition rune_G :: rune where "rune_G = 71"
definition rune_Y :: rune where "rune_Y = 89"
definition rune_R :: rune where "rune_R = 82"

text \<open>
  \<open>gpio.GPIO\<close>: the two \<open>*gpiod.Line\<close> fields are handles of the line driver and are
  left out; what the driver answers is the \<open>hw_result\<close> below.
\<close>

record GPIO =
  Name :: string
  Chip :: string
  Line :: int
  State :: bool

text \<open>
  What the line driver answers to one \<open>GPIO.Up\<close> or \<open>GPIO.Down\<close>: the error of
  \<open>gpiod.RequestLine\<close> and the error of \<open>Line.Close\<close>.
\<close>

record hw_result =
  request_err :: "error option"
  close_err :: "error option"

definition setupOutputLine :: "hw_result \<Rightarrow> error option" where
  "setupOutputLine h = request_err h"

definition releaseLine :: "hw_result \<Rightarrow> error option" where
  "releaseLine h = close_err h"

definition GPIO_Up :: "hw_result \<Rightarrow> error option" where
  "GPIO_Up h =
     (case setupOutputLine h of
        Some e \<Rightarrow> Some e
      | None \<Rightarrow> (case releaseLine h of Some e \<Rightarrow> Some e | None \<Rightarrow> None))"

definition GPIO_Down :: "hw_result \<Rightarrow> error option" where
  "GPIO_Down h =
     (case setupOutputLine h of
        Some e \<Rightarrow> Some e
      | None \<Rightarrow> (case releaseLine h of Some e \<Rightarrow> Some e | None \<Rightarrow> None))"

definition hw_ok :: hw_result where
  "hw_ok = \<lparr>request_err = None, close_err = None\<rparr>"

definition hw_fail :: hw_result where
  "hw_fail = \<lparr>request_err = Some (Error ''line busy''), close_err = None\<rparr>"

section \<open>The indicator lights (trafficLight.go)\<close>

record lights =
  flashing :: bool
  status :: bool
  color :: rune
  gpio :: GPIO

text \<open>
  The package-level variables \<open>green, yellow, red *lights\<close>.  A pointer is
  \<open>lights option\<close>, \<open>None\<close> being \<open>nil\<close>; the three are separate variables, and no
  statement of the source assigns to any of them, so two of them never share an object.
\<close>

record indicators =
  green :: "lights option"
  yellow :: "lights option"
  red :: "lights option"

text \<open>The value of the three variables when the program starts.\<close>

definition initial_indicators :: indicators where
  "initial_indicators = \<lparr>green = None, yellow = None, red = None\<rparr>"

definition HandleLight :: "GPIO \<Rightarrow> indicators \<Rightarrow> panic + indicators" where
  "HandleLight g s =
     (if Line g = 5 then
        (case green s of
           None \<Rightarrow> Inl NilDereference
         | Some l \<Rightarrow> Inr (s\<lparr>green := Some (l\<lparr>color := rune_G, gpio := g\<rparr>)\<rparr>))
      else if Line g = 6 then
        (case yellow s of
           None \<Rightarrow> Inl NilDereference
         | Some l \<Rightarrow> Inr (s\<lparr>yellow := Some (l\<lparr>color := rune_Y, gpio := g\<rparr>)\<rparr>))
      else if Line g = 7 then
        (case red s of
           None \<Rightarrow> Inl NilDereference
         | Some l \<Rightarrow> Inr (s\<lparr>red := Some (l\<lparr>color := rune_R, gpio := g\<rparr>)\<rparr>))
      else Inr s)"

text \<open>
  \<open>Up(color)\<close>: the line of the colour is driven first (its result is \<open>GPIO_Up h\<close>),
  then the three \<open>status\<close> fields are written in the order of the source, whatever the
  line answered.  The result is the returned error and the indicators after the call.
\<close>

definition Up :: "hw_result \<Rightarrow> rune \<Rightarrow> indicators \<Rightarrow> panic + (error option \<times> indicators)" where
  "Up h c s =
     (if c = rune_G then
        (case green s of None \<Rightarrow> Inl NilDereference | Some g \<Rightarrow>
         (case yellow s of None \<Rightarrow> Inl NilDereference | Some y \<Rightarrow>
          (case red s of None \<Rightarrow> Inl NilDereference | Some r \<Rightarrow>
             Inr (GPIO_Up h,
                  s\<lparr>green := Some (g\<lparr>status := True\<rparr>),
                    yellow := Some (y\<lparr>status := False\<rparr>),
                    red := Some (r\<lparr>status := False\<rparr>)\<rparr>))))
      else if c = rune_Y then
        (case yellow s of None \<Rightarrow> Inl NilDereference | Some y \<Rightarrow>
         (case red s of None \<Rightarrow> Inl NilDereference | Some r \<Rightarrow>
          (case green s of None \<Rightarrow> Inl NilDereference | Some g \<Rightarrow>
             Inr (GPIO_Up h,
                  s\<lparr>yellow := Some (y\<lparr>status := True\<rparr>),
                    red := Some (r\<lparr>status := False\<rparr>),
                    green := Some (g\<lparr>status := False\<rparr>)\<rparr>))))
      else if c = rune_R then
        (case red s of None \<Rightarrow> Inl NilDereference | Some r \<Rightarrow>
         (case green s of None \<Rightarrow> Inl NilDereference | Some g \<Rightarrow>
          (case yellow s of None \<Rightarrow> Inl NilDereference | Some y \<Rightarrow>
             Inr (GPIO_Up h,
                  s\<lparr>red := Some (r\<lparr>status := True\<rparr>),
                    green := Some (g\<lparr>status := False\<rparr>),
                    yellow := Some (y\<lparr>status := False\<rparr>)\<rparr>))))
      else Inr (None, s))"

definition Down :: "hw_result \<Rightarrow> rune \<Rightarrow> indicators \<Rightarrow> panic + (error option \<times> indicators)" where
  "Down h c s =
     (if c = rune_G then
        (case green s of None \<Rightarrow> Inl NilDereference | Some g \<Rightarrow>
           Inr (GPIO_Down h, s\<lparr>green := Some (g\<lparr>status := False\<rparr>)\<rparr>))
      else if c = rune_Y then
        (case yellow s of None \<Rightarrow> Inl NilDereference | Some y \<Rightarrow>
           Inr (GPIO_Down h, s\<lparr>yellow := Some (y\<lparr>status := False\<rparr>)\<rparr>))
      else if c = rune_R then
        (case red s of None \<Rightarrow> Inl NilDereference | Some r \<Rightarrow>
           Inr (GPIO_Down h, s\<lparr>red := Some (r\<lparr>status := False\<rparr>)\<rparr>))
      else Inr (None, s))"

definition SetFlashOn :: "rune \<Rightarrow> indicators \<Rightarrow> panic + indicators" where
  "SetFlashOn c s =
     (if c = rune_G then
        (case green s of None \<Rightarrow> Inl NilDereference | Some g \<Rightarrow>
         (case yellow s of None \<Rightarrow> Inl NilDereference | Some y \<Rightarrow>
          (case red s of None \<Rightarrow> Inl NilDereference | Some r \<Rightarrow>
             Inr (s\<lparr>green := Some (g\<lparr>flashing := True\<rparr>),
                    yellow := Some (y\<lparr>flashing := False\<rparr>),
                    red := Some (r\<lparr>flashing := False\<rparr>)\<rparr>))))
      else if c = rune_Y then
        (case yellow s of None \<Rightarrow> Inl NilDereference | Some y \<Rightarrow>
         (case green s of None \<Rightarrow> Inl NilDereference | Some g \<Rightarrow>
          (case red s of None \<Rightarrow> Inl NilDereference | Some r \<Rightarrow>
             Inr (s\<lparr>yellow := Some (y\<lparr>flashing := True\<rparr>),
                    green := Some (g\<lparr>flashing := False\<rparr>),
                    red := Some (r\<lparr>flashing := False\<rparr>)\<rparr>))))
      else if c = rune_R then
        (case red s of None \<Rightarrow> Inl NilDereference | Some r \<Rightarrow>
         (case green s of None \<Rightarrow> Inl NilDereference | Some g \<Rightarrow>
          (case yellow s of None \<Rightarrow> Inl NilDereference | Some y \<Rightarrow>
             Inr (s\<lparr>red := Some (r\<lparr>flashing := True\<rparr>),
                    green := Some (g\<lparr>flashing := False\<rparr>),
                    yellow := Some (y\<lparr>flashing := False\<rparr>)\<rparr>))))
      else Inr s)"

definition SetFlashOff :: "rune \<Rightarrow> indicators \<Rightarrow> panic + indicators" where
  "SetFlashOff c s =
     (if c = rune_G then
        (case green s of None \<Rightarrow> Inl NilDereference | Some g \<Rightarrow>
           Inr (s\<lparr>green := Some (g\<lparr>flashing := False\<rparr>)\<rparr>))
      else if c = rune_Y then
        (case yellow s of None \<Rightarrow> Inl NilDereference | Some y \<Rightarrow>
           Inr (s\<lparr>yellow := Some (y\<lparr>flashing := False\<rparr>)\<rparr>))
      else if c = rune_R then
        (case red s of None \<Rightarrow> Inl NilDereference | Some r \<Rightarrow>
           Inr (s\<lparr>red := Some (r\<lparr>flashing := False\<rparr>)\<rparr>))
      else Inr s)"

text \<open>Reading the two flags through a pointer that is known to be allocated.\<close>

definition solidOn :: "lights option \<Rightarrow> bool" where
  "solidOn p = (case p of None \<Rightarrow> False | Some l \<Rightarrow> status l)"

definition isFlashing :: "lights option \<Rightarrow> bool" where
  "isFlashing p = (case p of None \<Rightarrow> False | Some l \<Rightarrow> flashing l)"

definition allocated :: "indicators \<Rightarrow> bool" where
  "allocated s = (green s \<noteq> None \<and> yellow s \<noteq> None \<and> red s \<noteq> None)"

definition at_most_one_solid :: "indicators \<Rightarrow> bool" where
  "at_most_one_solid s = (length (filter solidOn [green s, yellow s, red s]) \<le> 1)"

text \<open>Sample values: a line, a light, and indicators that are all allocated.\<close>

definition line_of :: "string \<Rightarrow> int \<Rightarrow> GPIO" where
  "line_of n l = \<lparr>Name = n, Chip = ''gpiochip0'', Line = l, State = False\<rparr>"

definition lamp :: "rune \<Rightarrow> int \<Rightarrow> bool \<Rightarrow> bool \<Rightarrow> lights" where
  "lamp c l st fl = \<lparr>flashing = fl, status = st, color = c, gpio = line_of ''light'' l\<rparr>"

definition lamps_off :: indicators where
  "lamps_off = \<lparr>green = Some (lamp rune_G 5 False False),
                yellow = Some (lamp rune_Y 6 False False),
                red = Some (lamp rune_R 7 False False)\<rparr>"

definition lamps_yellow_solid_red_flashing :: indicators where
  "lamps_yellow_solid_red_flashing =
     \<lparr>green = Some (lamp rune_G 5 False False),
      yellow = Some (lamp rune_Y 6 True False),
      red = Some (lamp rune_R 7 False True)\<rparr>"

definition lamps_green_flashing_yellow_solid :: indicators where
  "lamps_green_flashing_yellow_solid =
     \<lparr>green = Some (lamp rune_G 5 False True),
      yellow = Some (lamp rune_Y 6 True False),
      red = Some (lamp rune_R 7 False False)\<rparr>"

section \<open>What a task does, as a list of events\<close>

text \<open>
  Everything the driver does to the outside is recorded in order: line requests with
  their results, calls of the indicator operations, sleeps (in nanoseconds), log lines,
  pushes to the two channels, goroutines started, and the exit of the process.  A log
  line is its format string; \<open>Logf\<close> is a log line together with the integer it prints.
\<close>

datatype event =
    Line_Up GPIO "error option"
  | Line_Down GPIO "error option"
  | Light_Up rune "error option"
  | Light_Down rune "error option"
  | Flash_On rune
  | Flash_Off rune
  | Go_Flashing rune
  | Go_connected
  | Sleep int64
  | Log string
  | Logf string int64
  | Async GPIO
  | Push bool
  | Exit int

definition Second :: int64 where "Second = 1000000000"
definition Minute :: int64 where "Minute = 60 * Second"

subsection \<open>The flash task\<close>

text \<open>The pointer \<open>flashingLight\<close> that \<open>Flashing\<close> picks for a known colour.\<close>

definition flashingLight :: "rune \<Rightarrow> indicators \<Rightarrow> lights option" where
  "flashingLight c s =
     (if c = rune_G then green s else if c = rune_Y then yellow s else red s)"

datatype flash_end = Flash_Panic | Flash_Return "error option" | Flash_Running

text \<open>
  The loop of \<open>Flashing\<close>.  The flag is written by other tasks while this one sleeps:
  \<open>env i\<close> is what they do to the indicators during the \<open>i\<close>-th sleep of this task.
  \<open>hw k\<close> is the answer of the line driver to the \<open>k\<close>-th line request of this task.
  The first argument bounds the number of iterations; \<open>Flash_Running\<close> says that the
  task is still in its loop after that many.
\<close>

fun Flashing_loop ::
  "nat \<Rightarrow> (nat \<Rightarrow> hw_result) \<Rightarrow> (nat \<Rightarrow> indicators \<Rightarrow> indicators) \<Rightarrow> rune \<Rightarrow> nat \<Rightarrow>
   indicators \<Rightarrow> event list \<Rightarrow> flash_end \<times> indicators \<times> event list" where
  "Flashing_loop 0 hw env c i s tr = (Flash_Running, s, tr)"
| "Flashing_loop (Suc n) hw env c i s tr =
     (case flashingLight c s of
        None \<Rightarrow> (Flash_Panic, s, tr)
      | Some l \<Rightarrow>
          if \<not> flashing l then (Flash_Return None, s, tr)
          else
            (case Up (hw (2 * i)) c s of
               Inl p \<Rightarrow> (Flash_Panic, s, tr)
             | Inr (err, s1) \<Rightarrow>
                 if err \<noteq> None
                 then (Flash_Return err, s1, tr @ [Light_Up c err, Log ''Cannot start light''])
                 else
                   (let tr2 = tr @ [Light_Up c None, Sleep (3 * Second)];
                        s2 = env i s1
                    in case Down (hw (2 * i + 1)) c s2 of
                         Inl p \<Rightarrow> (Flash_Panic, s2, tr2)
                       | Inr (err, s3) \<Rightarrow>
                           if err \<noteq> None
                           then (Flash_Return err, s3,
                                 tr2 @ [Light_Down c err, Log ''Cannot stop light''])
                           else Flashing_loop n hw env c (Suc i) s3
                                  (tr2 @ [Light_Down c None]))))"

definition Flashing ::
  "nat \<Rightarrow> (nat \<Rightarrow> hw_result) \<Rightarrow> (nat \<Rightarrow> indicators \<Rightarrow> indicators) \<Rightarrow> rune \<Rightarrow>
   indicators \<Rightarrow> flash_end \<times> indicators \<times> event list" where
  "Flashing n hw env c s =
     (if c = rune_G \<or> c = rune_Y \<or> c = rune_R then Flashing_loop n hw env c 0 s []
      else (Flash_Return (Some (Error ''unknown color'')), s, [Log ''Unknown color'']))"

text \<open>
  Another task calling \<open>SetFlashOff('G')\<close> while the flash task is in its \<open>k\<close>-th
  sleep, and nothing else happening to the indicators.
\<close>

definition stop_green_during :: "nat \<Rightarrow> nat \<Rightarrow> indicators \<Rightarrow> indicators" where
  "stop_green_during k i s =
     (if i = k then (case SetFlashOff rune_G s of Inl p \<Rightarrow> s | Inr s' \<Rightarrow> s') else s)"

definition lamps_green_flashing :: indicators where
  "lamps_green_flashing =
     \<lparr>green = Some (lamp rune_G 5 False True),
      yellow = Some (lamp rune_Y 6 False False),
      red = Some (lamp rune_R 7 False False)\<rparr>"

section \<open>The connectivity watchdog\<close>

definition pushConnectionStatus :: "bool \<Rightarrow> event list" where
  "pushConnectionStatus connection = [Push connection]"

text \<open>
  One pass of the loop of \<open>connected\<close>; \<open>err\<close> is the error that \<open>http.Get\<close>
  returned.  The loop has no exit: \<open>connected\<close> gives what it does in the passes whose
  probe results are listed.
\<close>

definition connected_iteration :: "error option \<Rightarrow> event list" where
  "connected_iteration err =
     (if err \<noteq> None then pushConnectionStatus False else []) @
     pushConnectionStatus True @ [Sleep (30 * Second)]"

fun connected :: "error option list \<Rightarrow> event list" where
  "connected [] = []"
| "connected (err # errs) = connected_iteration err @ connected errs"

text \<open>
  The loop of \<open>ConnectionCheck\<close> on the values it receives from the channel, in order.
  The result is \<open>checkLoop\<close>, the indicators and the events once the listed values are
  consumed; the task then blocks on the channel.  The flash task it starts runs beside
  it and is recorded as started, not run.
\<close>

fun ConnectionCheck_loop ::
  "bool list \<Rightarrow> int \<Rightarrow> indicators \<Rightarrow> event list \<Rightarrow> panic + (int \<times> indicators \<times> event list)" where
  "ConnectionCheck_loop [] checkLoop s tr = Inr (checkLoop, s, tr)"
| "ConnectionCheck_loop (connAck # rest) checkLoop s tr =
     (if \<not> connAck \<and> checkLoop = 0 then
        (case SetFlashOn rune_R s of
           Inl p \<Rightarrow> Inl p
         | Inr s' \<Rightarrow>
             ConnectionCheck_loop rest 1 s'
               (tr @ [Log ''Check connection'', Flash_On rune_R, Go_Flashing rune_R]))
      else if connAck then
        (case SetFlashOff rune_R s of
           Inl p \<Rightarrow> Inl p
         | Inr s' \<Rightarrow> ConnectionCheck_loop rest 0 s' (tr @ [Flash_Off rune_R]))
      else ConnectionCheck_loop rest checkLoop s tr)"

definition ConnectionCheck ::
  "bool list \<Rightarrow> indicators \<Rightarrow> panic + (int \<times> indicators \<times> event list)" where
  "ConnectionCheck received s = ConnectionCheck_loop received 0 s [Go_connected]"

definition calls_of :: "event \<Rightarrow> event list \<Rightarrow> nat" where
  "calls_of e tr = length (filter (\<lambda>x. x = e) tr)"

section \<open>The sequencer (simpledriver.go)\<close>

subsection \<open>Waiting for the device service\<close>

definition MAX_RETRY :: int where "MAX_RETRY = 5"

text \<open>
  What one pass of the first loop of \<open>handleStartGpio\<close> meets: the registry lookup
  fails; the lookup succeeds and \<open>http.Get\<close> fails; the response arrives and its body
  cannot be read (with the status code of the response); the body is read.
\<close>

datatype probe = Registry_Fails | Endpoint_Fails | Body_Unreadable int | Body_Read

text \<open>
  How the loop stands after the listed passes: the process has exited with a code, the
  pipeline has started, or the loop is still waiting with its counter \<open>attempt\<close>.
\<close>

datatype readiness = Exited int "event list" | Started "event list" | Waiting int "event list"

fun handleStartGpio_ready :: "probe list \<Rightarrow> int \<Rightarrow> event list \<Rightarrow> readiness" where
  "handleStartGpio_ready [] attempt tr = Waiting attempt tr"
| "handleStartGpio_ready (Registry_Fails # ps) attempt tr =
     (if attempt + 1 > MAX_RETRY
      then Exited 0 (tr @ [Log ''Attempt: Device not available'', Exit 0])
      else handleStartGpio_ready ps (attempt + 1)
             (tr @ [Log ''Attempt: Device not available'', Sleep (5 * Second)]))"
| "handleStartGpio_ready (Endpoint_Fails # ps) attempt tr =
     handleStartGpio_ready ps attempt
       (tr @ [Log ''Device Modbus-Device not available'', Sleep (5 * Second)])"
| "handleStartGpio_ready (Body_Unreadable code # ps) attempt tr =
     (if code = 200
      then Started (tr @ [Log ''Cannot fetch HTTP response body'', Log ''HTTP response status code''])
      else handleStartGpio_ready ps attempt
             (tr @ [Log ''Cannot fetch HTTP response body'', Log ''HTTP response status code'']))"
| "handleStartGpio_ready (Body_Read # ps) attempt tr =
     Started (tr @ [Log ''Modbus-Device response''])"

definition has_exited :: "readiness \<Rightarrow> bool" where
  "has_exited r = (case r of Exited c tr \<Rightarrow> True | Started tr \<Rightarrow> False | Waiting a tr \<Rightarrow> False)"

definition has_started :: "readiness \<Rightarrow> bool" where
  "has_started r = (case r of Exited c tr \<Rightarrow> False | Started tr \<Rightarrow> True | Waiting a tr \<Rightarrow> False)"

definition exit_code :: "readiness \<Rightarrow> int option" where
  "exit_code r = (case r of Exited c tr \<Rightarrow> Some c | Started tr \<Rightarrow> None | Waiting a tr \<Rightarrow> None)"

definition waiting_attempt :: "readiness \<Rightarrow> int option" where
  "waiting_attempt r = (case r of Exited c tr \<Rightarrow> None | Started tr \<Rightarrow> None | Waiting a tr \<Rightarrow> Some a)"

definition registry_failures :: "probe list \<Rightarrow> nat" where
  "registry_failures ps = length (filter (\<lambda>p. p = Registry_Fails) ps)"

definition endpoint_failures :: "probe list \<Rightarrow> nat" where
  "endpoint_failures ps = length (filter (\<lambda>p. p = Endpoint_Fails) ps)"

definition ready :: "probe \<Rightarrow> bool" where
  "ready p = (p = Body_Read \<or> p = Body_Unreadable 200)"

subsection \<open>Timers from the environment\<close>

text \<open>The package-level flag variables of simpledriver.go.\<close>

record flags =
  startTs :: int64
  pumpTimer :: int64
  enableClean :: bool
  enableReverse :: bool
  cleanTimer :: int64
  reverseTimer :: int64
  gravityTimer :: int64
  commandGap :: int64

record Config =
  PumpTimer :: int64
  EnableClean :: bool
  CleanTimer :: int64
  EnableReverse :: bool
  ReverseTimer :: int64
  GravityTimer :: int64
  CommandGap :: int64

text \<open>
  What \<open>time.ParseDuration\<close> and \<open>strconv.ParseBool\<close> return for the seven environment
  variables that \<open>Initialize\<close> reads: an error, or the parsed value.
\<close>

record environment =
  PUMP_TIMEOUT :: "error + int64"
  COMMAND_GAP :: "error + int64"
  CLEAN_TIMEOUT :: "error + int64"
  REVERSE_TIMEOUT :: "error + int64"
  GRAVITY_TIMEOUT :: "error + int64"
  ENABLE_CLEAN :: "error + bool"
  ENABLE_REVERSE :: "error + bool"

definition MIN_PUMP :: int64 where "MIN_PUMP = 5"
definition MIN_COMMAND_GAP :: int64 where "MIN_COMMAND_GAP = 10 * Minute"
definition MIN_CLEAN_TIMER :: int64 where "MIN_CLEAN_TIMER = 5 * Minute"
definition MIN_REVERSE_TIMER :: int64 where "MIN_REVERSE_TIMER = 5 * Minute"
definition MIN_GRAVITY_TIMER :: int64 where "MIN_GRAVITY_TIMER = 5 * Minute"
definition switchingTimer :: int64 where "switchingTimer = 15 * Second"
definition openingTimer :: int64 where "openingTimer = 5 * Second"

text \<open>Go's \<open><\<close> on \<open>int64\<close> and on \<open>time.Duration\<close>.\<close>

definition slt :: "int64 \<Rightarrow> int64 \<Rightarrow> bool" where
  "slt a b = (sint a < sint b)"

text \<open>
  \<open>int64(d.Seconds())\<close> goes through \<open>float64\<close>, which is not modelled: the functions
  below take that conversion as their parameter \<open>secs\<close>.  \<open>whole_seconds\<close> is the
  truncating quotient \<open>d / Second\<close>, which is what the conversion gives on a duration
  that is a whole number of seconds, as in the runs evaluated below.
\<close>

definition whole_seconds :: "int64 \<Rightarrow> int64" where
  "whole_seconds d = word_of_int (sint d sdiv sint Second)"

text \<open>
  The part of \<open>Initialize\<close> that sets the timers (lines 87 to 144): the flags after it,
  from the flags before.
\<close>

definition Initialize_flags :: "(int64 \<Rightarrow> int64) \<Rightarrow> environment \<Rightarrow> flags \<Rightarrow> flags" where
  "Initialize_flags secs env f =
     (let pumpTimer1 =
            (case PUMP_TIMEOUT env of
               Inl err \<Rightarrow> 5 * Minute
             | Inr pump \<Rightarrow>
                 if slt (secs pump) (MIN_PUMP * secs Minute)
                 then MIN_PUMP * secs Minute else secs pump);
          commandGap1 = (case COMMAND_GAP env of Inl err \<Rightarrow> 60 * Minute | Inr d \<Rightarrow> d);
          commandGap2 = (if slt commandGap1 MIN_COMMAND_GAP then MIN_COMMAND_GAP else commandGap1);
          cleanTimer1 = (case CLEAN_TIMEOUT env of Inl err \<Rightarrow> 5 * Minute | Inr d \<Rightarrow> d);
          cleanTimer2 = (if slt cleanTimer1 MIN_CLEAN_TIMER then MIN_CLEAN_TIMER else cleanTimer1);
          reverseTimer1 = (case REVERSE_TIMEOUT env of Inl err \<Rightarrow> 5 * Minute | Inr d \<Rightarrow> d);
          reverseTimer2 =
            (if slt reverseTimer1 MIN_REVERSE_TIMER then MIN_REVERSE_TIMER else reverseTimer1);
          gravityTimer1 = (case GRAVITY_TIMEOUT env of Inl err \<Rightarrow> 5 * Minute | Inr d \<Rightarrow> d);
          gravityTimer2 =
            (if slt gravityTimer1 MIN_GRAVITY_TIMER then MIN_GRAVITY_TIMER else gravityTimer1);
          enableClean1 = (case ENABLE_CLEAN env of Inl err \<Rightarrow> False | Inr b \<Rightarrow> b);
          enableReverse1 = (case ENABLE_REVERSE env of Inl err \<Rightarrow> False | Inr b \<Rightarrow> b)
      in f\<lparr>pumpTimer := pumpTimer1, commandGap := commandGap2, cleanTimer := cleanTimer2,
           reverseTimer := reverseTimer2, gravityTimer := gravityTimer2,
           enableClean := enableClean1, enableReverse := enableReverse1\<rparr>)"

text \<open>The value given to \<open>gpioConfig\<close> (lines 146 to 154).\<close>

definition Initialize_config :: "flags \<Rightarrow> Config" where
  "Initialize_config f =
     \<lparr>PumpTimer = pumpTimer f,
      EnableClean = enableClean f,
      CleanTimer = cleanTimer f,
      EnableReverse = enableReverse f,
      ReverseTimer = reverseTimer f,
      GravityTimer = gravityTimer f,
      CommandGap = commandGap f\<rparr>"

text \<open>The flag variables as their declarations leave them.\<close>

definition flags_declared :: flags where
  "flags_declared =
     \<lparr>startTs = 0, pumpTimer = 0, enableClean = False, enableReverse = False,
      cleanTimer = 0, reverseTimer = 0, gravityTimer = 0, commandGap = 0\<rparr>"

text \<open>An environment with \<open>PUMP_TIMEOUT=10m\<close> and nothing else set.\<close>

definition env_pump_10m :: environment where
  "env_pump_10m =
     \<lparr>PUMP_TIMEOUT = Inr (10 * Minute),
      COMMAND_GAP = Inl (Error ''invalid duration''),
      CLEAN_TIMEOUT = Inl (Error ''invalid duration''),
      REVERSE_TIMEOUT = Inl (Error ''invalid duration''),
      GRAVITY_TIMEOUT = Inl (Error ''invalid duration''),
      ENABLE_CLEAN = Inl (Error ''invalid syntax''),
      ENABLE_REVERSE = Inl (Error ''invalid syntax'')\<rparr>"

subsection \<open>The task of the sequencer\<close>

text \<open>
  What the sequencer task carries along: the indicators, the number of line requests it
  has made, and its events so far.  \<open>hw k\<close> is the answer of the line driver to the
  \<open>k\<close>-th line request of the task.  A step either panics or returns a value and the
  next state.  The flash task that the reverse pipeline starts runs beside the sequencer:
  it is recorded as started, and its own writes to the lights are not interleaved here.
\<close>

record seq =
  lamps :: indicators
  requests :: nat
  trace :: "event list"

type_synonym 'a act = "seq \<Rightarrow> panic + ('a \<times> seq)"

definition ret :: "'a \<Rightarrow> 'a act" where
  "ret x s = Inr (x, s)"

definition bnd :: "'a act \<Rightarrow> ('a \<Rightarrow> 'b act) \<Rightarrow> 'b act" where
  "bnd m f s = (case m s of Inl p \<Rightarrow> Inl p | Inr (x, s') \<Rightarrow> f x s')"

definition emit :: "event \<Rightarrow> unit act" where
  "emit e s = Inr ((), s\<lparr>trace := trace s @ [e]\<rparr>)"

definition sleep :: "int64 \<Rightarrow> unit act" where
  "sleep d = emit (Sleep d)"

definition line_Up :: "(nat \<Rightarrow> hw_result) \<Rightarrow> GPIO \<Rightarrow> (error option) act" where
  "line_Up hw g s =
     (let err = GPIO_Up (hw (requests s))
      in Inr (err, s\<lparr>requests := requests s + 1, trace := trace s @ [Line_Up g err]\<rparr>))"

definition line_Down :: "(nat \<Rightarrow> hw_result) \<Rightarrow> GPIO \<Rightarrow> (error option) act" where
  "line_Down hw g s =
     (let err = GPIO_Down (hw (requests s))
      in Inr (err, s\<lparr>requests := requests s + 1, trace := trace s @ [Line_Down g err]\<rparr>))"

text \<open>\<open>Up\<close> and \<open>Down\<close> of a light make a line request only for a colour they know.\<close>

definition line_requests_of :: "rune \<Rightarrow> nat" where
  "line_requests_of c = (if c = rune_G \<or> c = rune_Y \<or> c = rune_R then 1 else 0)"

definition light_Up :: "(nat \<Rightarrow> hw_result) \<Rightarrow> rune \<Rightarrow> (error option) act" where
  "light_Up hw c s =
     (case Up (hw (requests s)) c (lamps s) of
        Inl p \<Rightarrow> Inl p
      | Inr (err, l) \<Rightarrow>
          Inr (err, s\<lparr>lamps := l, requests := requests s + line_requests_of c,
                       trace := trace s @ [Light_Up c err]\<rparr>))"

definition light_Down :: "(nat \<Rightarrow> hw_result) \<Rightarrow> rune \<Rightarrow> (error option) act" where
  "light_Down hw c s =
     (case Down (hw (requests s)) c (lamps s) of
        Inl p \<Rightarrow> Inl p
      | Inr (err, l) \<Rightarrow>
          Inr (err, s\<lparr>lamps := l, requests := requests s + line_requests_of c,
                       trace := trace s @ [Light_Down c err]\<rparr>))"

definition flash_On :: "rune \<Rightarrow> unit act" where
  "flash_On c s =
     (case SetFlashOn c (lamps s) of
        Inl p \<Rightarrow> Inl p
      | Inr l \<Rightarrow> Inr ((), s\<lparr>lamps := l, trace := trace s @ [Flash_On c]\<rparr>))"

definition flash_Off :: "rune \<Rightarrow> unit act" where
  "flash_Off c s =
     (case SetFlashOff c (lamps s) of
        Inl p \<Rightarrow> Inl p
      | Inr l \<Rightarrow> Inr ((), s\<lparr>lamps := l, trace := trace s @ [Flash_Off c]\<rparr>))"

text \<open>
  \<open>handleAsyncCommunication\<close>: whether or not the value can be marshalled, one value goes
  to the channel of readings; the payload is kept as the line it reports.
\<close>

definition handleAsyncCommunication :: "GPIO \<Rightarrow> unit act" where
  "handleAsyncCommunication g =
     bnd (emit (Log ''Pushing gpio to EdgeX Core Data'')) (\<lambda>_. emit (Async g))"

text \<open>
  The block that the source repeats after each failed step:
  \<open>err = Up('R'); if err != nil { log.Printf("Error: %s", err) }; log.Printf(msg, err)\<close>.
  The \<open>return\<close> or \<open>continue\<close> that follows it is in the callers below.
\<close>

definition raise_alarm :: "(nat \<Rightarrow> hw_result) \<Rightarrow> string \<Rightarrow> unit act" where
  "raise_alarm hw msg =
     bnd (light_Up hw rune_R) (\<lambda>err.
     bnd (if err \<noteq> None then emit (Log ''Error'') else ret ()) (\<lambda>_.
     emit (Log msg)))"

text \<open>
  \<open>handleCleanGpio\<close>.  The lines are passed by value, so \<open>clean.State = true\<close> changes
  the copy that the later calls use.  The result of \<open>clean.Down()\<close> is not assigned: the
  test after it reads \<open>err\<close> as \<open>Up('Y')\<close> left it.
\<close>

definition handleCleanGpio ::
  "(nat \<Rightarrow> hw_result) \<Rightarrow> flags \<Rightarrow> GPIO \<Rightarrow> GPIO \<Rightarrow> GPIO \<Rightarrow> GPIO \<Rightarrow> unit act" where
  "handleCleanGpio hw fl clean openValve switchingValve light =
     bnd (emit (Log ''Step 1 -> Switching hydraulic circuit'')) (\<lambda>_.
     bnd (line_Up hw switchingValve) (\<lambda>err.
     if err \<noteq> None then raise_alarm hw ''Cannot switch the hydraulic circuit'' else
     bnd (sleep switchingTimer) (\<lambda>_.
     bnd (emit (Log ''Step 2 -> Enable cleaning inlet'')) (\<lambda>_.
     bnd (line_Up hw openValve) (\<lambda>err.
     if err \<noteq> None then raise_alarm hw ''Cannot open the washing circuit'' else
     bnd (sleep openingTimer) (\<lambda>_.
     bnd (emit (Log ''Step 3 -> Performing circuit clean up'')) (\<lambda>_.
     bnd (line_Up hw clean) (\<lambda>err.
     if err \<noteq> None then raise_alarm hw ''Cannot start cleaning process'' else
     bnd (light_Up hw rune_Y) (\<lambda>err.
     bnd (if err \<noteq> None then emit (Log ''Error'') else ret ()) (\<lambda>_.
     bnd (handleAsyncCommunication (clean\<lparr>State := True\<rparr>)) (\<lambda>_.
     bnd (sleep (cleanTimer fl)) (\<lambda>_.
     bnd (line_Down hw (clean\<lparr>State := True\<rparr>)) (\<lambda>unused.
     if err \<noteq> None then raise_alarm hw ''Cannot stop cleaning process'' else
     bnd (light_Down hw rune_Y) (\<lambda>err.
     bnd (if err \<noteq> None then emit (Log ''Error'') else ret ()) (\<lambda>_.
     bnd (handleAsyncCommunication (clean\<lparr>State := False\<rparr>)) (\<lambda>_.
     bnd (emit (Log ''Restoring circuit behaviour'')) (\<lambda>_.
     bnd (line_Down hw openValve) (\<lambda>err.
     if err \<noteq> None then raise_alarm hw ''Cannot close the washing circuit'' else
     bnd (sleep openingTimer) (\<lambda>_.
     bnd (sleep (gravityTimer fl)) (\<lambda>_.
     bnd (line_Down hw switchingValve) (\<lambda>err.
     if err \<noteq> None then raise_alarm hw ''Cannot restore hydraulic circuit behaviour'' else
     bnd (sleep switchingTimer) (\<lambda>_.
     emit (Log ''Circuit cleaned!'')))))))))))))))))))))))"

text \<open>
  \<open>handleReverseGpio\<close>.  The result of \<open>reverse.Down()\<close> is not assigned either: the
  test after it reads \<open>err\<close> as \<open>reverse.Up()\<close> left it.
\<close>

definition handleReverseGpio ::
  "(nat \<Rightarrow> hw_result) \<Rightarrow> flags \<Rightarrow> GPIO \<Rightarrow> GPIO \<Rightarrow> GPIO \<Rightarrow> GPIO \<Rightarrow> GPIO \<Rightarrow> unit act" where
  "handleReverseGpio hw fl reverse clean openValve switchingValve light =
     bnd (emit (Log ''Reverting pump...'')) (\<lambda>_.
     bnd (line_Up hw reverse) (\<lambda>err.
     if err \<noteq> None then raise_alarm hw ''Cannot start cleaning process'' else
     bnd (flash_On rune_G) (\<lambda>_.
     bnd (emit (Go_Flashing rune_G)) (\<lambda>_.
     bnd (handleAsyncCommunication (reverse\<lparr>State := True\<rparr>)) (\<lambda>_.
     bnd (sleep (reverseTimer fl)) (\<lambda>_.
     bnd (line_Down hw (reverse\<lparr>State := True\<rparr>)) (\<lambda>unused.
     if err \<noteq> None then raise_alarm hw ''Cannot stop reverting process'' else
     bnd (flash_Off rune_G) (\<lambda>_.
     bnd (handleAsyncCommunication (reverse\<lparr>State := False\<rparr>)) (\<lambda>_.
     bnd (emit (Log ''Circuit is now empty!'')) (\<lambda>_.
     if enableClean fl then handleCleanGpio hw fl clean openValve switchingValve light
     else ret ()))))))))))"

text \<open>
  One pass of the second loop of \<open>handleStartGpio\<close>, on the flags, the local copy
  of the pump line (\<open>gpio\<close> in the source, \<open>pump\<close> here) and \<open>sleepForGap\<close>.  \<open>now1\<close> is the clock read by the pass
  (for \<open>startTs\<close>, or in the test against \<open>pumpTimer\<close>), \<open>now2\<close> the clock read again
  by the log line of the hold branch.  A \<open>continue\<close> skips the sleep for the gap.
\<close>

definition sleep_for_gap :: "flags \<times> GPIO \<times> bool \<Rightarrow> (flags \<times> GPIO \<times> bool) act" where
  "sleep_for_gap st =
     (case st of (fl, pump, sleepForGap) \<Rightarrow>
        if sleepForGap then
          bnd (emit (Log ''Pump timeout. Sleeping'')) (\<lambda>_.
          bnd (sleep (commandGap fl)) (\<lambda>_.
          ret (fl, pump, False)))
        else ret (fl, pump, sleepForGap))"

definition handleStartGpio_pass ::
  "(nat \<Rightarrow> hw_result) \<Rightarrow> int64 \<Rightarrow> int64 \<Rightarrow> GPIO \<Rightarrow> GPIO \<Rightarrow> GPIO \<Rightarrow> GPIO \<Rightarrow> GPIO \<Rightarrow>
   flags \<times> GPIO \<times> bool \<Rightarrow> (flags \<times> GPIO \<times> bool) act" where
  "handleStartGpio_pass hw now1 now2 reverse clean openValve switchingValve light st =
     (case st of (fl, pump, sleepForGap) \<Rightarrow>
        if \<not> State pump then
          bnd (line_Up hw pump) (\<lambda>err.
          if err \<noteq> None then
            bnd (raise_alarm hw ''Cannot activate pump'') (\<lambda>_.
            bnd (sleep Second) (\<lambda>_.
            ret (fl, pump, sleepForGap)))
          else
            bnd (light_Up hw rune_G) (\<lambda>err.
            bnd (if err \<noteq> None then emit (Log ''Error'') else ret ()) (\<lambda>_.
            bnd (handleAsyncCommunication (pump\<lparr>State := True\<rparr>)) (\<lambda>_.
            sleep_for_gap (fl\<lparr>startTs := now1\<rparr>, pump\<lparr>State := True\<rparr>, sleepForGap)))))
        else if \<not> slt (now1 - startTs fl) (pumpTimer fl) then
          bnd (line_Down hw pump) (\<lambda>err.
          if err \<noteq> None then
            bnd (raise_alarm hw ''Cannot deactivate pump'') (\<lambda>_.
            bnd (sleep Second) (\<lambda>_.
            ret (fl, pump, sleepForGap)))
          else
            bnd (light_Down hw rune_G) (\<lambda>err.
            bnd (if err \<noteq> None then emit (Log ''Error'') else ret ()) (\<lambda>_.
            bnd (if enableReverse fl
                 then handleReverseGpio hw fl reverse clean openValve switchingValve light
                 else ret ()) (\<lambda>_.
            bnd (handleAsyncCommunication (pump\<lparr>State := False\<rparr>)) (\<lambda>_.
            sleep_for_gap (fl, pump\<lparr>State := False\<rparr>, True))))))
        else
          bnd (emit (Logf ''Pump will run for %d s...'' (pumpTimer fl - (now2 - startTs fl)))) (\<lambda>_.
          bnd (sleep (pumpTimer fl * Second)) (\<lambda>_.
          sleep_for_gap (fl, pump, sleepForGap))))"

text \<open>The events of a step that returned.\<close>

definition events_of :: "panic + ('a \<times> seq) \<Rightarrow> event list option" where
  "events_of r = (case r of Inl p \<Rightarrow> None | Inr (x, s) \<Rightarrow> Some (trace s))"

definition seq_start :: "indicators \<Rightarrow> seq" where
  "seq_start l = \<lparr>lamps = l, requests = 0, trace = []\<rparr>"

text \<open>Sample lines, flags and line-driver answers for the runs evaluated below.\<close>

definition pump_line :: GPIO where "pump_line = line_of ''pump'' 1"
definition reverse_line :: GPIO where "reverse_line = line_of ''reverse'' 2"
definition clean_line :: GPIO where "clean_line = line_of ''clean'' 3"
definition open_valve_line :: GPIO where "open_valve_line = line_of ''openValve'' 4"
definition switching_valve_line :: GPIO where "switching_valve_line = line_of ''switchingValve'' 8"
definition light_line :: GPIO where "light_line = line_of ''light'' 7"

definition flags_floor :: flags where
  "flags_floor =
     \<lparr>startTs = 1000, pumpTimer = 300, enableClean = False, enableReverse = False,
      cleanTimer = 5 * Minute, reverseTimer = 5 * Minute, gravityTimer = 5 * Minute,
      commandGap = 60 * Minute\<rparr>"

definition only_request_fails :: "nat \<Rightarrow> nat \<Rightarrow> hw_result" where
  "only_request_fails k i = (if i = k then hw_fail else hw_ok)"

section \<open>Properties\<close>

subsection \<open>Solid lights\<close>

lemma rune_distinct [simp]:
  "rune_G \<noteq> rune_Y" "rune_G \<noteq> rune_R" "rune_Y \<noteq> rune_R"
  "rune_Y \<noteq> rune_G" "rune_R \<noteq> rune_G" "rune_R \<noteq> rune_Y"
  by (simp_all add: rune_G_def rune_Y_def rune_R_def)

lemma Up_G: "Up h rune_G s = Inr (e, s') \<Longrightarrow>
   solidOn (green s') \<and> \<not> solidOn (yellow s') \<and> \<not> solidOn (red s')"
  by (auto simp: Up_def solidOn_def split: option.splits)

lemma Up_Y: "Up h rune_Y s = Inr (e, s') \<Longrightarrow>
   solidOn (yellow s') \<and> \<not> solidOn (green s') \<and> \<not> solidOn (red s')"
  by (auto simp: Up_def solidOn_def split: option.splits)

lemma Up_R: "Up h rune_R s = Inr (e, s') \<Longrightarrow>
   solidOn (red s') \<and> \<not> solidOn (green s') \<and> \<not> solidOn (yellow s')"
  by (auto simp: Up_def solidOn_def split: option.splits)

lemma Up_other: "c \<noteq> rune_G \<Longrightarrow> c \<noteq> rune_Y \<Longrightarrow> c \<noteq> rune_R \<Longrightarrow> Up h c s = Inr (None, s)"
  by (simp add: Up_def)

lemma Up_at_most_one: "at_most_one_solid s \<Longrightarrow> Up h c s = Inr (e, s') \<Longrightarrow> at_most_one_solid s'"
proof -
  assume inv: "at_most_one_solid s" and up: "Up h c s = Inr (e, s')"
  consider "c = rune_G" | "c = rune_Y" | "c = rune_R"
    | "c \<noteq> rune_G" "c \<noteq> rune_Y" "c \<noteq> rune_R" by blast
  then show ?thesis
  proof cases
    case 1 with Up_G [of h s e s'] up show ?thesis by (simp add: at_most_one_solid_def)
  next
    case 2 with Up_Y [of h s e s'] up show ?thesis by (simp add: at_most_one_solid_def)
  next
    case 3 with Up_R [of h s e s'] up show ?thesis by (simp add: at_most_one_solid_def)
  next
    case 4 with Up_other [of c h s] up inv show ?thesis by simp
  qed
qed

lemma Down_frame: "Down h c s = Inr (e, s') \<Longrightarrow>
   (solidOn (green s') \<longrightarrow> solidOn (green s)) \<and>
   (solidOn (yellow s') \<longrightarrow> solidOn (yellow s)) \<and>
   (solidOn (red s') \<longrightarrow> solidOn (red s))"
  by (auto simp: Down_def solidOn_def split: option.splits if_splits)

lemma Down_clears: "Down h c s = Inr (e, s') \<Longrightarrow>
   (c = rune_G \<longrightarrow> \<not> solidOn (green s')) \<and>
   (c = rune_Y \<longrightarrow> \<not> solidOn (yellow s')) \<and>
   (c = rune_R \<longrightarrow> \<not> solidOn (red s'))"
  by (auto simp: Down_def solidOn_def split: option.splits if_splits)

lemma Down_at_most_one: "at_most_one_solid s \<Longrightarrow> Down h c s = Inr (e, s') \<Longrightarrow> at_most_one_solid s'"
  using Down_frame [of h c s e s']
  by (auto simp: at_most_one_solid_def split: if_splits)

lemma Up_total: "allocated s \<Longrightarrow> \<exists>e s'. Up h c s = Inr (e, s')"
  by (auto simp: Up_def allocated_def)

lemma Down_total: "allocated s \<Longrightarrow> \<exists>e s'. Down h c s = Inr (e, s')"
  by (auto simp: Down_def allocated_def)

text \<open>
  Claim C5.  From any state in which at most one of green, yellow and red has its solid
  status set, every \<open>Up\<close> and every \<open>Down\<close> that returns leaves at most one set:
  \<open>Up\<close> of a colour sets that colour's status and clears the other two, \<open>Down\<close> of
  a colour clears that colour's status, and a colour that is none of the three changes
  nothing.  With the three lights allocated both calls return.  The states compared are
  those before and after a call.
\<close>

theorem Up_Down_keep_at_most_one_solid:
  assumes "at_most_one_solid s"
  shows "(\<forall>e s'. Up h c s = Inr (e, s') \<longrightarrow>
            at_most_one_solid s' \<and>
            (c = rune_G \<longrightarrow> solidOn (green s') \<and> \<not> solidOn (yellow s') \<and> \<not> solidOn (red s')) \<and>
            (c = rune_Y \<longrightarrow> solidOn (yellow s') \<and> \<not> solidOn (green s') \<and> \<not> solidOn (red s')) \<and>
            (c = rune_R \<longrightarrow> solidOn (red s') \<and> \<not> solidOn (green s') \<and> \<not> solidOn (yellow s'))) \<and>
         (\<forall>e s'. Down h c s = Inr (e, s') \<longrightarrow>
            at_most_one_solid s' \<and>
            (c = rune_G \<longrightarrow> \<not> solidOn (green s')) \<and>
            (c = rune_Y \<longrightarrow> \<not> solidOn (yellow s')) \<and>
            (c = rune_R \<longrightarrow> \<not> solidOn (red s'))) \<and>
         (allocated s \<longrightarrow> (\<exists>e s'. Up h c s = Inr (e, s')) \<and> (\<exists>e s'. Down h c s = Inr (e, s')))"
proof (intro conjI allI impI)
  fix e s' assume "Up h c s = Inr (e, s')"
  then show "at_most_one_solid s'" using assms Up_at_most_one by blast
next
  fix e s' assume "Up h c s = Inr (e, s')" "c = rune_G"
  then show "solidOn (green s')" "\<not> solidOn (yellow s')" "\<not> solidOn (red s')"
    using Up_G by blast+
next
  fix e s' assume "Up h c s = Inr (e, s')" "c = rune_Y"
  then show "solidOn (yellow s')" "\<not> solidOn (green s')" "\<not> solidOn (red s')"
    using Up_Y by blast+
next
  fix e s' assume "Up h c s = Inr (e, s')" "c = rune_R"
  then show "solidOn (red s')" "\<not> solidOn (green s')" "\<not> solidOn (yellow s')"
    using Up_R by blast+
next
  fix e s' assume "Down h c s = Inr (e, s')"
  then show "at_most_one_solid s'" using assms Down_at_most_one by blast
next
  fix e s' assume "Down h c s = Inr (e, s')" "c = rune_G"
  then show "\<not> solidOn (green s')" using Down_clears by blast
next
  fix e s' assume "Down h c s = Inr (e, s')" "c = rune_Y"
  then show "\<not> solidOn (yellow s')" using Down_clears by blast
next
  fix e s' assume "Down h c s = Inr (e, s')" "c = rune_R"
  then show "\<not> solidOn (red s')" using Down_clears by blast
next
  assume "allocated s"
  then show "\<exists>e s'. Up h c s = Inr (e, s')" "\<exists>e s'. Down h c s = Inr (e, s')"
    using Up_total Down_total by blast+
qed

theorem Up_Down_keep_at_most_one_solid_witness:
  "at_most_one_solid lamps_yellow_solid_red_flashing \<and> allocated lamps_yellow_solid_red_flashing \<and>
   (\<exists>e s'. Up hw_ok rune_G lamps_yellow_solid_red_flashing = Inr (e, s') \<and>
      at_most_one_solid s' \<and> solidOn (green s') \<and> \<not> solidOn (yellow s'))"
proof -
  have inv: "at_most_one_solid lamps_yellow_solid_red_flashing"
    by (simp add: at_most_one_solid_def lamps_yellow_solid_red_flashing_def solidOn_def lamp_def)
  have al: "allocated lamps_yellow_solid_red_flashing"
    by (simp add: allocated_def lamps_yellow_solid_red_flashing_def)
  from Up_Down_keep_at_most_one_solid [OF inv, of hw_ok rune_G] al
  show ?thesis using inv by blast
qed

subsection \<open>Flashing flags\<close>

text \<open>
  Claim C8 as it is written: \<open>SetFlashOn\<close> of one colour leaves the flashing flags of the
  other two colours as they were.  It does not: with red flashing, \<open>SetFlashOn('G')\<close>
  clears the flag of red.
\<close>

theorem SetFlashOn_clears_other_flag_counterexample:
  "isFlashing (red lamps_yellow_solid_red_flashing) \<and>
   SetFlashOn rune_G lamps_yellow_solid_red_flashing = Inr lamps_green_flashing_yellow_solid \<and>
   \<not> isFlashing (red lamps_green_flashing_yellow_solid)"
  by (simp add: SetFlashOn_def lamps_yellow_solid_red_flashing_def
      lamps_green_flashing_yellow_solid_def isFlashing_def lamp_def)

lemma SetFlashOn_G: "SetFlashOn rune_G s = Inr s' \<Longrightarrow>
   isFlashing (green s') \<and> \<not> isFlashing (yellow s') \<and> \<not> isFlashing (red s')"
  by (auto simp: SetFlashOn_def isFlashing_def split: option.splits)

lemma SetFlashOn_Y: "SetFlashOn rune_Y s = Inr s' \<Longrightarrow>
   isFlashing (yellow s') \<and> \<not> isFlashing (green s') \<and> \<not> isFlashing (red s')"
  by (auto simp: SetFlashOn_def isFlashing_def split: option.splits)

lemma SetFlashOn_R: "SetFlashOn rune_R s = Inr s' \<Longrightarrow>
   isFlashing (red s') \<and> \<not> isFlashing (green s') \<and> \<not> isFlashing (yellow s')"
  by (auto simp: SetFlashOn_def isFlashing_def split: option.splits)

lemma SetFlashOn_other:
  "c \<noteq> rune_G \<Longrightarrow> c \<noteq> rune_Y \<Longrightarrow> c \<noteq> rune_R \<Longrightarrow> SetFlashOn c s = Inr s"
  by (simp add: SetFlashOn_def)

lemma SetFlashOn_solid: "SetFlashOn c s = Inr s' \<Longrightarrow>
   solidOn (green s') = solidOn (green s) \<and> solidOn (yellow s') = solidOn (yellow s) \<and>
   solidOn (red s') = solidOn (red s)"
  by (auto simp: SetFlashOn_def solidOn_def split: option.splits if_splits)

lemma SetFlashOn_total: "allocated s \<Longrightarrow> \<exists>s'. SetFlashOn c s = Inr s'"
  by (auto simp: SetFlashOn_def allocated_def)

text \<open>
  Claim C8, amended.  \<open>SetFlashOn\<close> of green, yellow or red sets the flashing flag of
  that colour and clears the flashing flags of the other two; it changes no solid status;
  for any other colour it changes nothing.  With the three lights allocated it returns.
\<close>

theorem SetFlashOn_clears_other_flags:
  "(\<forall>s'. SetFlashOn c s = Inr s' \<longrightarrow>
      (c = rune_G \<longrightarrow> isFlashing (green s') \<and> \<not> isFlashing (yellow s') \<and> \<not> isFlashing (red s')) \<and>
      (c = rune_Y \<longrightarrow> isFlashing (yellow s') \<and> \<not> isFlashing (green s') \<and> \<not> isFlashing (red s')) \<and>
      (c = rune_R \<longrightarrow> isFlashing (red s') \<and> \<not> isFlashing (green s') \<and> \<not> isFlashing (yellow s')) \<and>
      (c \<noteq> rune_G \<and> c \<noteq> rune_Y \<and> c \<noteq> rune_R \<longrightarrow> s' = s) \<and>
      solidOn (green s') = solidOn (green s) \<and> solidOn (yellow s') = solidOn (yellow s) \<and>
      solidOn (red s') = solidOn (red s)) \<and>
   (allocated s \<longrightarrow> (\<exists>s'. SetFlashOn c s = Inr s'))"
proof (intro conjI allI impI)
  fix s' assume "SetFlashOn c s = Inr s'" "c = rune_G"
  then show "isFlashing (green s')" "\<not> isFlashing (yellow s')" "\<not> isFlashing (red s')"
    using SetFlashOn_G by blast+
next
  fix s' assume "SetFlashOn c s = Inr s'" "c = rune_Y"
  then show "isFlashing (yellow s')" "\<not> isFlashing (green s')" "\<not> isFlashing (red s')"
    using SetFlashOn_Y by blast+
next
  fix s' assume "SetFlashOn c s = Inr s'" "c = rune_R"
  then show "isFlashing (red s')" "\<not> isFlashing (green s')" "\<not> isFlashing (yellow s')"
    using SetFlashOn_R by blast+
next
  fix s' assume "SetFlashOn c s = Inr s'" "c \<noteq> rune_G \<and> c \<noteq> rune_Y \<and> c \<noteq> rune_R"
  then show "s' = s" using SetFlashOn_other [of c s] by simp
next
  fix s' assume "SetFlashOn c s = Inr s'"
  then show "solidOn (green s') = solidOn (green s)" "solidOn (yellow s') = solidOn (yellow s)"
    "solidOn (red s') = solidOn (red s)"
    using SetFlashOn_solid by blast+
next
  assume "allocated s" then show "\<exists>s'. SetFlashOn c s = Inr s'" by (rule SetFlashOn_total)
qed

theorem SetFlashOn_clears_other_flags_witness:
  "allocated lamps_yellow_solid_red_flashing \<and>
   SetFlashOn rune_G lamps_yellow_solid_red_flashing = Inr lamps_green_flashing_yellow_solid \<and>
   isFlashing (green lamps_green_flashing_yellow_solid) \<and>
   \<not> isFlashing (red lamps_green_flashing_yellow_solid) \<and>
   solidOn (yellow lamps_green_flashing_yellow_solid) = solidOn (yellow lamps_yellow_solid_red_flashing)"
proof -
  have al: "allocated lamps_yellow_solid_red_flashing"
    by (simp add: allocated_def lamps_yellow_solid_red_flashing_def)
  have run: "SetFlashOn rune_G lamps_yellow_solid_red_flashing = Inr lamps_green_flashing_yellow_solid"
    by (simp add: SetFlashOn_def lamps_yellow_solid_red_flashing_def
      lamps_green_flashing_yellow_solid_def lamp_def)
  from SetFlashOn_clears_other_flags [of rune_G lamps_yellow_solid_red_flashing] run al
  show ?thesis by blast
qed

subsection \<open>Indicators that were never allocated\<close>

text \<open>
  Claim C10 as it is written: with the three pointers nil, the first call of any
  indicator operation dereferences a nil pointer for every input.  It does not for an
  input that the \<open>switch\<close> does not know: \<open>Up('X')\<close> and \<open>HandleLight\<close> of a line
  numbered 8 take the \<open>default\<close> branch, which logs and returns.
\<close>

theorem unknown_colour_no_dereference_counterexample:
  "Up hw_ok 88 initial_indicators = Inr (None, initial_indicators) \<and>
   HandleLight (line_of ''light'' 8) initial_indicators = Inr initial_indicators"
  by (simp add: Up_def HandleLight_def line_of_def rune_G_def rune_Y_def rune_R_def)

lemma nil_known:
  assumes "c = rune_G \<or> c = rune_Y \<or> c = rune_R"
  shows "Up h c initial_indicators = Inl NilDereference"
    and "Down h c initial_indicators = Inl NilDereference"
    and "SetFlashOn c initial_indicators = Inl NilDereference"
    and "SetFlashOff c initial_indicators = Inl NilDereference"
    and "Flashing (Suc n) hw env c initial_indicators = (Flash_Panic, initial_indicators, [])"
  using assms
  by (auto simp: Up_def Down_def SetFlashOn_def SetFlashOff_def Flashing_def flashingLight_def
      initial_indicators_def)

lemma nil_unknown:
  assumes "c \<noteq> rune_G" "c \<noteq> rune_Y" "c \<noteq> rune_R"
  shows "Up h c s = Inr (None, s)"
    and "Down h c s = Inr (None, s)"
    and "SetFlashOn c s = Inr s"
    and "SetFlashOff c s = Inr s"
    and "Flashing n hw env c s =
          (Flash_Return (Some (Error ''unknown color'')), s, [Log ''Unknown color''])"
  using assms
  by (simp_all add: Up_def Down_def SetFlashOn_def SetFlashOff_def Flashing_def)

lemma nil_HandleLight:
  "Line g = 5 \<or> Line g = 6 \<or> Line g = 7 \<Longrightarrow> HandleLight g initial_indicators = Inl NilDereference"
  "Line g \<noteq> 5 \<Longrightarrow> Line g \<noteq> 6 \<Longrightarrow> Line g \<noteq> 7 \<Longrightarrow> HandleLight g s = Inr s"
  by (auto simp: HandleLight_def initial_indicators_def)

text \<open>
  Claim C10, amended.  On the indicators as the program starts them (all three pointers
  nil), \<open>Up\<close>, \<open>Down\<close>, \<open>SetFlashOn\<close>, \<open>SetFlashOff\<close> and \<open>Flashing\<close> panic with a
  nil dereference for each of the colours green, yellow and red, and \<open>HandleLight\<close>
  panics for a line numbered 5, 6 or 7; for any other colour or line the call returns
  and leaves the three pointers nil.  No call allocates a pointer.
\<close>

theorem nil_indicators_panic_on_known_input:
  "(c = rune_G \<or> c = rune_Y \<or> c = rune_R \<longrightarrow>
      Up h c initial_indicators = Inl NilDereference \<and>
      Down h c initial_indicators = Inl NilDereference \<and>
      SetFlashOn c initial_indicators = Inl NilDereference \<and>
      SetFlashOff c initial_indicators = Inl NilDereference \<and>
      Flashing (Suc n) hw env c initial_indicators = (Flash_Panic, initial_indicators, [])) \<and>
   (c \<noteq> rune_G \<and> c \<noteq> rune_Y \<and> c \<noteq> rune_R \<longrightarrow>
      Up h c initial_indicators = Inr (None, initial_indicators) \<and>
      Down h c initial_indicators = Inr (None, initial_indicators) \<and>
      SetFlashOn c initial_indicators = Inr initial_indicators \<and>
      SetFlashOff c initial_indicators = Inr initial_indicators \<and>
      Flashing (Suc n) hw env c initial_indicators =
        (Flash_Return (Some (Error ''unknown color'')), initial_indicators, [Log ''Unknown color''])) \<and>
   (Line g = 5 \<or> Line g = 6 \<or> Line g = 7 \<longrightarrow>
      HandleLight g initial_indicators = Inl NilDereference) \<and>
   (Line g \<noteq> 5 \<and> Line g \<noteq> 6 \<and> Line g \<noteq> 7 \<longrightarrow>
      HandleLight g initial_indicators = Inr initial_indicators)"
  by (intro conjI impI) (simp_all add: nil_known nil_unknown nil_HandleLight)

theorem nil_indicators_panic_on_known_input_witness:
  "(rune_R = rune_G \<or> rune_R = rune_Y \<or> rune_R = rune_R) \<and>
   Up hw_ok rune_R initial_indicators = Inl NilDereference \<and>
   SetFlashOn rune_R initial_indicators = Inl NilDereference \<and>
   Flashing (Suc 0) (\<lambda>k. hw_ok) (\<lambda>i s. s) rune_R initial_indicators
     = (Flash_Panic, initial_indicators, []) \<and>
   (Line (line_of ''light'' 7) = 5 \<or> Line (line_of ''light'' 7) = 6 \<or> Line (line_of ''light'' 7) = 7) \<and>
   HandleLight (line_of ''light'' 7) initial_indicators = Inl NilDereference"
  using nil_indicators_panic_on_known_input
    [of rune_R hw_ok 0 "\<lambda>k. hw_ok" "\<lambda>i s. s" "line_of ''light'' 7"]
  by (simp add: line_of_def)

subsection \<open>The flash task\<close>

text \<open>
  Claim C7 says that an iteration of the flash task drives the line high, waits three
  seconds, drives it low and waits three seconds again before it reads the flag.  The
  task run here has its flag set, and another task clears the flag during the second
  sleep: each of its two iterations is high, three seconds, low, and the next read of
  the flag follows the low at once.
\<close>

theorem Flashing_no_wait_after_low:
  "Flashing 3 (\<lambda>k. hw_ok) (stop_green_during 1) rune_G lamps_green_flashing =
     (Flash_Return None,
      \<lparr>green = Some (lamp rune_G 5 False False),
       yellow = Some (lamp rune_Y 6 False False),
       red = Some (lamp rune_R 7 False False)\<rparr>,
      [Light_Up rune_G None, Sleep (3 * Second), Light_Down rune_G None,
       Light_Up rune_G None, Sleep (3 * Second), Light_Down rune_G None])"
  by (simp add: Flashing_def numeral_3_eq_3 flashingLight_def lamps_green_flashing_def lamp_def
      Up_def Down_def GPIO_Up_def GPIO_Down_def setupOutputLine_def releaseLine_def hw_ok_def
      stop_green_during_def SetFlashOff_def)

subsection \<open>The watchdog\<close>

text \<open>
  Claim C4 says that a pass of the prober pushes one status, \<open>Disconnected\<close> when the
  probe fails, and never \<open>Connected\<close> after a failed probe.  A pass whose probe fails
  pushes \<open>false\<close> and then \<open>true\<close>: the second push is not in an \<open>else\<close>.
\<close>

theorem connected_failed_probe_pushes_both:
  "connected_iteration (Some (Error ''no route to host'')) =
     [Push False, Push True, Sleep (30 * Second)]"
  by (simp add: connected_iteration_def pushConnectionStatus_def)

lemma ConnectionCheck_loop_append:
  "ConnectionCheck_loop (xs @ ys) c s tr =
     (case ConnectionCheck_loop xs c s tr of
        Inl p \<Rightarrow> Inl p
      | Inr (c', s', tr') \<Rightarrow> ConnectionCheck_loop ys c' s' tr')"
  by (induction xs arbitrary: c s tr) (auto split: sum.splits)

lemma ConnectionCheck_loop_flashing:
  "ConnectionCheck_loop (replicate n False) 1 s tr = Inr (1, s, tr)"
  by (induction n) simp_all

lemma SetFlashOn_R_total:
  "allocated s \<Longrightarrow> \<exists>s'. SetFlashOn rune_R s = Inr s' \<and> allocated s' \<and> isFlashing (red s')"
  by (auto simp: SetFlashOn_def allocated_def isFlashing_def rune_R_def rune_G_def rune_Y_def)

lemma SetFlashOff_R_total:
  "allocated s \<Longrightarrow> \<exists>s'. SetFlashOff rune_R s = Inr s' \<and> allocated s' \<and> \<not> isFlashing (red s')"
  by (auto simp: SetFlashOff_def allocated_def isFlashing_def rune_R_def rune_G_def rune_Y_def)

text \<open>
  Claim C6.  Starting with \<open>checkLoop = 0\<close> and the lights allocated, the reporter that
  receives \<open>N \<ge> 1\<close> times \<open>Disconnected\<close> calls \<open>SetFlashOn('R')\<close> once, starts the flash
  task once and ends with \<open>checkLoop = 1\<close> and the flag of red set; when it then receives
  \<open>Connected\<close> it calls \<open>SetFlashOff('R')\<close> once and ends with \<open>checkLoop = 0\<close> and the
  flag clear.
\<close>

theorem ConnectionCheck_debounce:
  assumes "allocated s" and "1 \<le> N"
  shows "\<exists>s1 s2.
           ConnectionCheck (replicate N False) s =
             Inr (1, s1, [Go_connected, Log ''Check connection'', Flash_On rune_R, Go_Flashing rune_R]) \<and>
           isFlashing (red s1) \<and>
           calls_of (Flash_On rune_R)
             [Go_connected, Log ''Check connection'', Flash_On rune_R, Go_Flashing rune_R] = 1 \<and>
           ConnectionCheck (replicate N False @ [True]) s =
             Inr (0, s2, [Go_connected, Log ''Check connection'', Flash_On rune_R, Go_Flashing rune_R,
                          Flash_Off rune_R]) \<and>
           \<not> isFlashing (red s2) \<and>
           calls_of (Flash_Off rune_R)
             [Go_connected, Log ''Check connection'', Flash_On rune_R, Go_Flashing rune_R,
              Flash_Off rune_R] = 1"
proof -
  from assms(2) obtain n where N: "N = Suc n" by (cases N) auto
  from SetFlashOn_R_total [OF assms(1)] obtain s1
    where on: "SetFlashOn rune_R s = Inr s1" and al1: "allocated s1" and fl1: "isFlashing (red s1)"
    by blast
  from SetFlashOff_R_total [OF al1] obtain s2
    where off: "SetFlashOff rune_R s1 = Inr s2" and fl2: "\<not> isFlashing (red s2)"
    by blast
  have run1: "ConnectionCheck (replicate N False) s =
      Inr (1, s1, [Go_connected, Log ''Check connection'', Flash_On rune_R, Go_Flashing rune_R])"
    by (simp add: ConnectionCheck_def N on ConnectionCheck_loop_flashing)
  have run2: "ConnectionCheck (replicate N False @ [True]) s =
      Inr (0, s2, [Go_connected, Log ''Check connection'', Flash_On rune_R, Go_Flashing rune_R,
                   Flash_Off rune_R])"
    using run1 by (simp add: ConnectionCheck_def ConnectionCheck_loop_append off)
  have c1: "calls_of (Flash_On rune_R)
      [Go_connected, Log ''Check connection'', Flash_On rune_R, Go_Flashing rune_R] = 1"
    by (simp add: calls_of_def)
  have c2: "calls_of (Flash_Off rune_R)
      [Go_connected, Log ''Check connection'', Flash_On rune_R, Go_Flashing rune_R,
       Flash_Off rune_R] = 1"
    by (simp add: calls_of_def)
  from run1 run2 fl1 fl2 c1 c2 show ?thesis by blast
qed

theorem ConnectionCheck_debounce_witness:
  "allocated lamps_off \<and> (1::nat) \<le> 3 \<and>
   (\<exists>s1 s2.
      ConnectionCheck (replicate 3 False) lamps_off =
        Inr (1, s1, [Go_connected, Log ''Check connection'', Flash_On rune_R, Go_Flashing rune_R]) \<and>
      isFlashing (red s1) \<and>
      ConnectionCheck (replicate 3 False @ [True]) lamps_off =
        Inr (0, s2, [Go_connected, Log ''Check connection'', Flash_On rune_R, Go_Flashing rune_R,
                     Flash_Off rune_R]) \<and>
      \<not> isFlashing (red s2))"
proof -
  have al: "allocated lamps_off" by (simp add: allocated_def lamps_off_def)
  have n: "(1::nat) \<le> 3" by simp
  from ConnectionCheck_debounce [OF al n] al n show ?thesis by blast
qed

subsection \<open>Waiting for the device service\<close>

text \<open>
  Claim C9 as it is written: both preconditions are retried up to \<open>MAX_RETRY\<close> times and
  the process exits when that budget is exceeded.  Failures of the companion endpoint are
  not counted: after seven of them, more than \<open>MAX_RETRY\<close>, the process has not exited,
  and the pipeline starts when the endpoint answers.
\<close>

theorem endpoint_failures_unbounded_counterexample:
  "int (endpoint_failures [Endpoint_Fails, Endpoint_Fails, Endpoint_Fails, Endpoint_Fails,
         Endpoint_Fails, Endpoint_Fails, Endpoint_Fails, Body_Read]) > MAX_RETRY \<and>
   \<not> has_exited (handleStartGpio_ready
        [Endpoint_Fails, Endpoint_Fails, Endpoint_Fails, Endpoint_Fails,
         Endpoint_Fails, Endpoint_Fails, Endpoint_Fails, Body_Read] 0 []) \<and>
   has_started (handleStartGpio_ready
        [Endpoint_Fails, Endpoint_Fails, Endpoint_Fails, Endpoint_Fails,
         Endpoint_Fails, Endpoint_Fails, Endpoint_Fails, Body_Read] 0 [])"
  by (simp add: endpoint_failures_def MAX_RETRY_def has_exited_def has_started_def)

lemma ready_exit_code:
  "exit_code (handleStartGpio_ready ps a tr) = Some c \<Longrightarrow> c = 0"
  by (induction ps a tr rule: handleStartGpio_ready.induct)
     (auto simp: exit_code_def split: if_splits)

lemma ready_no_exit:
  "a + int (registry_failures ps) \<le> MAX_RETRY \<Longrightarrow> \<not> has_exited (handleStartGpio_ready ps a tr)"
  by (induction ps a tr rule: handleStartGpio_ready.induct)
     (auto simp: has_exited_def registry_failures_def split: if_splits)

lemma ready_waiting:
  "\<forall>p\<in>set ps. \<not> ready p \<Longrightarrow> a + int (registry_failures ps) \<le> MAX_RETRY \<Longrightarrow>
   waiting_attempt (handleStartGpio_ready ps a tr) = Some (a + int (registry_failures ps))"
  by (induction ps a tr rule: handleStartGpio_ready.induct)
     (auto simp: waiting_attempt_def registry_failures_def ready_def split: if_splits)

lemma ready_exit:
  "\<forall>p\<in>set ps. \<not> ready p \<Longrightarrow> a \<le> MAX_RETRY \<Longrightarrow> a + int (registry_failures ps) > MAX_RETRY \<Longrightarrow>
   exit_code (handleStartGpio_ready ps a tr) = Some 0"
  by (induction ps a tr rule: handleStartGpio_ready.induct)
     (auto simp: exit_code_def registry_failures_def ready_def split: if_splits)

text \<open>
  Claim C9, amended.  Only failed registry lookups are counted.  With at most
  \<open>MAX_RETRY\<close> of them the waiting loop never exits the process, however many endpoint
  requests fail; while nothing makes the device ready, the process exits at the lookup
  failure that brings the count above \<open>MAX_RETRY\<close>, and until then the loop keeps waiting
  with the number of failed lookups as its count; the exit code is always 0; and a
  failed lookup within the budget and a failed endpoint request are each followed by a
  sleep of five seconds.
\<close>

theorem readiness_exit_on_registry_failures_only:
  "(int (registry_failures ps) \<le> MAX_RETRY \<longrightarrow> \<not> has_exited (handleStartGpio_ready ps 0 [])) \<and>
   ((\<forall>p\<in>set ps. \<not> ready p) \<and> int (registry_failures ps) > MAX_RETRY \<longrightarrow>
      exit_code (handleStartGpio_ready ps 0 []) = Some 0) \<and>
   ((\<forall>p\<in>set ps. \<not> ready p) \<and> int (registry_failures ps) \<le> MAX_RETRY \<longrightarrow>
      waiting_attempt (handleStartGpio_ready ps 0 []) = Some (int (registry_failures ps))) \<and>
   (\<forall>c. exit_code (handleStartGpio_ready ps 0 []) = Some c \<longrightarrow> c = 0) \<and>
   (a + 1 \<le> MAX_RETRY \<longrightarrow>
      handleStartGpio_ready [Registry_Fails] a tr =
        Waiting (a + 1) (tr @ [Log ''Attempt: Device not available'', Sleep (5 * Second)])) \<and>
   handleStartGpio_ready [Endpoint_Fails] a tr =
     Waiting a (tr @ [Log ''Device Modbus-Device not available'', Sleep (5 * Second)])"
proof (intro conjI impI allI)
  assume "int (registry_failures ps) \<le> MAX_RETRY"
  then show "\<not> has_exited (handleStartGpio_ready ps 0 [])"
    using ready_no_exit [of 0 ps "[]"] by simp
next
  assume "(\<forall>p\<in>set ps. \<not> ready p) \<and> MAX_RETRY < int (registry_failures ps)"
  then show "exit_code (handleStartGpio_ready ps 0 []) = Some 0"
    using ready_exit [of ps 0 "[]"] by (simp add: MAX_RETRY_def)
next
  assume "(\<forall>p\<in>set ps. \<not> ready p) \<and> int (registry_failures ps) \<le> MAX_RETRY"
  then show "waiting_attempt (handleStartGpio_ready ps 0 []) = Some (int (registry_failures ps))"
    using ready_waiting [of ps 0 "[]"] by simp
next
  fix c assume "exit_code (handleStartGpio_ready ps 0 []) = Some c"
  then show "c = 0" by (rule ready_exit_code)
next
  assume "a + 1 \<le> MAX_RETRY"
  then show "handleStartGpio_ready [Registry_Fails] a tr =
        Waiting (a + 1) (tr @ [Log ''Attempt: Device not available'', Sleep (5 * Second)])"
    by simp
next
  show "handleStartGpio_ready [Endpoint_Fails] a tr =
     Waiting a (tr @ [Log ''Device Modbus-Device not available'', Sleep (5 * Second)])"
    by simp
qed

theorem readiness_exit_on_registry_failures_only_witness:
  "\<not> ready Registry_Fails \<and>
   int (registry_failures (replicate 6 Registry_Fails)) > MAX_RETRY \<and>
   exit_code (handleStartGpio_ready (replicate 6 Registry_Fails) 0 []) = Some 0 \<and>
   int (registry_failures (replicate 5 Registry_Fails)) \<le> MAX_RETRY \<and>
   \<not> has_exited (handleStartGpio_ready (replicate 5 Registry_Fails) 0 [])"
proof -
  have r: "\<not> ready Registry_Fails" by (simp add: ready_def)
  then have a: "\<forall>p\<in>set (replicate 6 Registry_Fails). \<not> ready p" by simp
  have b: "int (registry_failures (replicate 6 Registry_Fails)) > MAX_RETRY"
    by (simp add: registry_failures_def MAX_RETRY_def)
  have c: "int (registry_failures (replicate 5 Registry_Fails)) \<le> MAX_RETRY"
    by (simp add: registry_failures_def MAX_RETRY_def)
  from readiness_exit_on_registry_failures_only [of "replicate 6 Registry_Fails"]
    readiness_exit_on_registry_failures_only [of "replicate 5 Registry_Fails"] r a b c
  show ?thesis by blast
qed

subsection \<open>Timers from the environment\<close>

text \<open>
  What holds of the timers: the four durations kept in nanoseconds are never below their
  floors, and the pump timer, a number of seconds when \<open>PUMP_TIMEOUT\<close> parses, is never
  below \<open>MIN_PUMP\<close> minutes counted in seconds; when it does not parse the pump timer is
  the number of nanoseconds in five minutes.
\<close>

lemma whole_seconds_10m: "whole_seconds (10 * Minute) = 600"
  by (simp add: whole_seconds_def Minute_def Second_def signed_divide_int_def)

lemma slt_floor: "\<not> slt (if slt a b then b else a) b"
  by (simp add: slt_def)

lemma Initialize_floors:
  "\<not> slt (CommandGap (Initialize_config (Initialize_flags secs env f))) MIN_COMMAND_GAP \<and>
   \<not> slt (CleanTimer (Initialize_config (Initialize_flags secs env f))) MIN_CLEAN_TIMER \<and>
   \<not> slt (ReverseTimer (Initialize_config (Initialize_flags secs env f))) MIN_REVERSE_TIMER \<and>
   \<not> slt (GravityTimer (Initialize_config (Initialize_flags secs env f))) MIN_GRAVITY_TIMER"
  by (simp add: Initialize_config_def Initialize_flags_def Let_def slt_def)

lemma Initialize_pumpTimer_seconds:
  "PUMP_TIMEOUT env = Inr d \<Longrightarrow>
   \<not> slt (pumpTimer (Initialize_flags secs env f)) (MIN_PUMP * secs Minute)"
  by (simp add: Initialize_flags_def Let_def slt_def)

lemma Initialize_pumpTimer_default:
  "PUMP_TIMEOUT env = Inl e \<Longrightarrow> pumpTimer (Initialize_flags secs env f) = 5 * Minute"
  by (simp add: Initialize_flags_def Let_def)

text \<open>
  Claim C1 says that every duration stored in the configuration is at least its floor,
  five minutes for the pump.  With \<open>PUMP_TIMEOUT=10m\<close> the flag \<open>pumpTimer\<close> is 600, a
  number of seconds, and the configuration stores it unchanged in \<open>PumpTimer\<close>, a
  \<open>time.Duration\<close>: 600 nanoseconds, below five minutes.
\<close>

theorem Initialize_config_pump_below_floor:
  "pumpTimer (Initialize_flags whole_seconds env_pump_10m flags_declared) = 600 \<and>
   PumpTimer (Initialize_config (Initialize_flags whole_seconds env_pump_10m flags_declared)) = 600 \<and>
   slt (PumpTimer (Initialize_config (Initialize_flags whole_seconds env_pump_10m flags_declared)))
       (5 * Minute)"
  by (simp add: Initialize_config_def Initialize_flags_def env_pump_10m_def flags_declared_def
      whole_seconds_def Minute_def Second_def MIN_PUMP_def slt_def signed_divide_int_def Let_def)

subsection \<open>The pump cycle\<close>

lemmas act_defs = bnd_def ret_def emit_def sleep_def line_Up_def line_Down_def light_Up_def
  light_Down_def flash_On_def flash_Off_def handleAsyncCommunication_def raise_alarm_def
  line_requests_of_def events_of_def seq_start_def only_request_fails_def
  GPIO_Up_def GPIO_Down_def setupOutputLine_def releaseLine_def hw_ok_def hw_fail_def Let_def

text \<open>
  While the pump runs and the time since its start is below \<open>pumpTimer\<close>, a pass makes
  no line request, logs the remaining seconds, and sleeps for \<open>pumpTimer\<close> seconds
  whatever the time already spent.
\<close>

lemma hold_branch:
  "State pump \<Longrightarrow> slt (now1 - startTs fl) (pumpTimer fl) \<Longrightarrow>
   handleStartGpio_pass hw now1 now2 reverse clean openValve switchingValve light
     (fl, pump, False) s =
   Inr ((fl, pump, False),
        s\<lparr>trace := trace s @
             [Logf ''Pump will run for %d s...'' (pumpTimer fl - (now2 - startTs fl)),
              Sleep (pumpTimer fl * Second)]\<rparr>)"
  by (simp add: handleStartGpio_pass_def sleep_for_gap_def act_defs)

text \<open>
  Claim C2 says that in the hold state the sequencer sleeps for exactly the remaining
  duration.  With \<open>pumpTimer = 300\<close> and ten seconds spent since the start, the pass logs
  290 remaining seconds and sleeps 300 seconds.
\<close>

theorem hold_sleeps_full_pump_timer:
  "events_of (handleStartGpio_pass (\<lambda>k. hw_ok) 1010 1010 reverse_line clean_line open_valve_line
       switching_valve_line light_line (flags_floor, pump_line\<lparr>State := True\<rparr>, False)
       (seq_start lamps_off)) =
     Some [Logf ''Pump will run for %d s...'' 290, Sleep (300 * Second)] \<and>
   pumpTimer flags_floor - (1010 - startTs flags_floor) = 290 \<and>
   300 * Second \<noteq> 290 * Second"
  by (simp add: handleStartGpio_pass_def sleep_for_gap_def flags_floor_def pump_line_def
      line_of_def slt_def Second_def act_defs)

subsection \<open>The clean and reverse pipelines\<close>

text \<open>A step whose result is tested stops the pipeline: here the first one.\<close>

lemma clean_pipeline_aborts_on_first_step:
  "events_of (handleCleanGpio (only_request_fails 0) flags_floor clean_line open_valve_line
       switching_valve_line light_line (seq_start lamps_off)) =
     Some [Log ''Step 1 -> Switching hydraulic circuit'',
           Line_Up switching_valve_line (Some (Error ''line busy'')),
           Light_Up rune_R None,
           Log ''Cannot switch the hydraulic circuit'']"
  by (simp add: handleCleanGpio_def flags_floor_def lamps_off_def lamp_def
      Up_def rune_G_def rune_Y_def rune_R_def act_defs)

text \<open>
  Claim C3 says that a failure of any single step of the clean or of the reverse
  pipeline stops the rest of that pipeline.  In the first run every line request succeeds
  but the fifth, \<open>clean.Down()\<close>: the pipeline goes on to close the inlet valve and to
  restore the switching valve, and raises no alarm.  In the second run \<open>reverse.Down()\<close>
  fails: the pipeline goes on to stop the flashing and to report the line as down.
\<close>

theorem clean_pipeline_continues_after_failed_stop:
  "events_of (handleCleanGpio (only_request_fails 4) flags_floor clean_line open_valve_line
       switching_valve_line light_line (seq_start lamps_off)) =
     Some [Log ''Step 1 -> Switching hydraulic circuit'',
           Line_Up switching_valve_line None,
           Sleep switchingTimer,
           Log ''Step 2 -> Enable cleaning inlet'',
           Line_Up open_valve_line None,
           Sleep openingTimer,
           Log ''Step 3 -> Performing circuit clean up'',
           Line_Up clean_line None,
           Light_Up rune_Y None,
           Log ''Pushing gpio to EdgeX Core Data'',
           Async (clean_line\<lparr>State := True\<rparr>),
           Sleep (cleanTimer flags_floor),
           Line_Down (clean_line\<lparr>State := True\<rparr>) (Some (Error ''line busy'')),
           Light_Down rune_Y None,
           Log ''Pushing gpio to EdgeX Core Data'',
           Async (clean_line\<lparr>State := False\<rparr>),
           Log ''Restoring circuit behaviour'',
           Line_Down open_valve_line None,
           Sleep openingTimer,
           Sleep (gravityTimer flags_floor),
           Line_Down switching_valve_line None,
           Sleep switchingTimer,
           Log ''Circuit cleaned!''] \<and>
   events_of (handleReverseGpio (only_request_fails 1) flags_floor reverse_line clean_line
       open_valve_line switching_valve_line light_line (seq_start lamps_off)) =
     Some [Log ''Reverting pump...'',
           Line_Up reverse_line None,
           Flash_On rune_G,
           Go_Flashing rune_G,
           Log ''Pushing gpio to EdgeX Core Data'',
           Async (reverse_line\<lparr>State := True\<rparr>),
           Sleep (reverseTimer flags_floor),
           Line_Down (reverse_line\<lparr>State := True\<rparr>) (Some (Error ''line busy'')),
           Flash_Off rune_G,
           Log ''Pushing gpio to EdgeX Core Data'',
           Async (reverse_line\<lparr>State := False\<rparr>),
           Log ''Circuit is now empty!'']"
  by (simp add: handleCleanGpio_def handleReverseGpio_def flags_floor_def lamps_off_def lamp_def
      Up_def Down_def SetFlashOn_def SetFlashOff_def rune_G_def rune_Y_def rune_R_def act_defs)

subsection \<open>Runs from the indicators as the program starts them\<close>

text \<open>
  The runs above start from lights that are allocated.  From the three nil pointers the
  reporter panics at the first \<open>Disconnected\<close> it receives, and the sequencer panics in
  its first pass, at \<open>Up('G')\<close> after the pump line is driven.
\<close>

lemma ConnectionCheck_nil_panics:
  "ConnectionCheck (False # rest) initial_indicators = Inl NilDereference"
  by (simp add: ConnectionCheck_def SetFlashOn_def initial_indicators_def
      rune_R_def rune_G_def rune_Y_def)

lemma first_pump_start_nil_panics:
  "handleStartGpio_pass (\<lambda>k. hw_ok) now1 now2 reverse_line clean_line open_valve_line
     switching_valve_line light_line (flags_floor, pump_line, False)
     (seq_start initial_indicators) = Inl NilDereference"
  by (simp add: handleStartGpio_pass_def pump_line_def line_of_def initial_indicators_def
      Up_def act_defs)

end
